theory Spec2Isabelle
  imports Main "HOL-Library.Log_Nat"
begin

section \<open>JavaScript numbers\<close>

text \<open>
  The form computes with JavaScript numbers (IEEE 754 binary64).  A number is NaN, an
  infinity, or a finite value, kept here as the rational it denotes; every arithmetic
  operation rounds its exact result to the nearest double, ties to even
  (\<open>toDouble\<close>).  The two zeros are identified: the component never divides by zero
  and never inspects the sign of a zero, so no result below depends on it.
\<close>

datatype number = NaN | PosInf | NegInf | Fin rat

definition pow2 :: "int \<Rightarrow> rat" where
  "pow2 e = (if 0 \<le> e then 2 ^ nat e else 1 / 2 ^ nat (- e))"

definition pow10 :: "int \<Rightarrow> rat" where
  "pow10 e = (if 0 \<le> e then 10 ^ nat e else 1 / 10 ^ nat (- e))"

definition floor_log2 :: "rat \<Rightarrow> int" where
  \<comment> \<open>for \<open>0 < q\<close>: the \<open>e\<close> with \<open>2^e \<le> q < 2^(e+1)\<close>\<close>
  "floor_log2 q =
     (let (n, d) = quotient_of q; e0 = bitlen n - bitlen d
      in if q < pow2 e0 then e0 - 1 else e0)"

definition round_half_even :: "rat \<Rightarrow> int" where
  "round_half_even q =
     (let f = \<lfloor>q\<rfloor>; d = q - of_int f
      in if d < 1 / 2 then f else if 1 / 2 < d then f + 1
         else if even f then f else f + 1)"

definition toDouble :: "rat \<Rightarrow> number" where
  \<comment> \<open>53-bit significand, exponents from -1022 (subnormals below) to 1023; the result
     overflows when the exponent is above 1023 or the significand rounds up to \<open>2^53\<close>
     at exponent 1023\<close>
  "toDouble q =
     (if q = 0 then Fin 0
      else let a = \<bar>q\<bar>;
               e = max (floor_log2 a) (- 1022);
               ulp = pow2 (e - 52);
               m = round_half_even (a / ulp)
           in if 1023 < e \<or> (e = 1023 \<and> m = 2 ^ 53)
              then (if 0 < q then PosInf else NegInf)
              else Fin (if 0 < q then of_int m * ulp else - (of_int m * ulp)))"

fun js_gt :: "number \<Rightarrow> number \<Rightarrow> bool" where
  "js_gt NaN _ = False"
| "js_gt _ NaN = False"
| "js_gt PosInf PosInf = False"
| "js_gt PosInf _ = True"
| "js_gt NegInf _ = False"
| "js_gt (Fin a) PosInf = False"
| "js_gt (Fin a) NegInf = True"
| "js_gt (Fin a) (Fin b) = (b < a)"

fun js_le :: "number \<Rightarrow> number \<Rightarrow> bool" where
  "js_le NaN _ = False"
| "js_le _ NaN = False"
| "js_le NegInf _ = True"
| "js_le PosInf PosInf = True"
| "js_le PosInf _ = False"
| "js_le (Fin a) PosInf = True"
| "js_le (Fin a) NegInf = False"
| "js_le (Fin a) (Fin b) = (a \<le> b)"

fun isNaN :: "number \<Rightarrow> bool" where
  "isNaN NaN = True"
| "isNaN _ = False"

fun truthy :: "number \<Rightarrow> bool" where
  "truthy NaN = False"
| "truthy (Fin q) = (q \<noteq> 0)"
| "truthy _ = True"

fun js_neg :: "number \<Rightarrow> number" where
  "js_neg NaN = NaN"
| "js_neg PosInf = NegInf"
| "js_neg NegInf = PosInf"
| "js_neg (Fin q) = Fin (- q)"

fun js_mul :: "number \<Rightarrow> number \<Rightarrow> number" where
  "js_mul NaN _ = NaN"
| "js_mul _ NaN = NaN"
| "js_mul (Fin a) (Fin b) = toDouble (a * b)"
| "js_mul (Fin a) y = (if a = 0 then NaN else if 0 < a then y else js_neg y)"
| "js_mul x (Fin b) = (if b = 0 then NaN else if 0 < b then x else js_neg x)"
| "js_mul PosInf y = y"
| "js_mul NegInf y = js_neg y"

fun js_div :: "number \<Rightarrow> number \<Rightarrow> number" where
  "js_div NaN _ = NaN"
| "js_div _ NaN = NaN"
| "js_div (Fin a) (Fin b) =
     (if b = 0 then (if a = 0 then NaN else if 0 < a then PosInf else NegInf)
      else toDouble (a / b))"
| "js_div (Fin a) _ = Fin 0"
| "js_div x (Fin b) = (if 0 \<le> b then x else js_neg x)"
| "js_div _ _ = NaN"

section \<open>Strings of digits\<close>

text \<open>Strings are ASCII: every string the form handles is typed into a decimal field
  or built from digits.\<close>

definition is_digit :: "char \<Rightarrow> bool" where
  "is_digit c = (c \<in> set ''0123456789'')"

definition digit_char :: "int \<Rightarrow> char" where
  "digit_char d = ''0123456789'' ! nat (d mod 10)"

definition digit_val :: "char \<Rightarrow> int" where
  \<comment> \<open>the position of a digit among the ten digits\<close>
  "digit_val c = int (length (takeWhile (\<lambda>x. x \<noteq> c) ''0123456789''))"

function digits_of :: "int \<Rightarrow> string" where
  \<comment> \<open>the decimal digits of a non-negative integer, no leading zero\<close>
  "digits_of n =
     (if n < 10 then [digit_char n] else digits_of (n div 10) @ [digit_char (n mod 10)])"
  by pat_completeness auto
termination
  by (relation "measure nat") auto

declare digits_of.simps [simp del]

definition int_of_digits :: "string \<Rightarrow> int" where
  "int_of_digits ds = foldl (\<lambda>acc c. 10 * acc + digit_val c) 0 ds"

subsection \<open>Number.prototype.toFixed\<close>

definition shortest_digits :: "rat \<Rightarrow> int \<times> nat" where
  \<comment> \<open>Number::toString, step 5: the fewest digits \<open>s\<close> (and the exponent \<open>n\<close>) with
     \<open>s * 10^(n-k)\<close> rounding to the value; of two candidates the closer one\<close>
  "shortest_digits a =
     (let nd = length (digits_of \<lfloor>a\<rfloor>);
          cands = concat (map (\<lambda>k.
                    let y = a / 10 ^ (nd - k); lo = \<lfloor>y\<rfloor>; hi = \<lceil>y\<rceil>
                    in if y - of_int lo \<le> of_int hi - y then [(k, lo), (k, hi)]
                       else [(k, hi), (k, lo)]) [1..<18])
      in case find (\<lambda>(k, c). toDouble (of_int c * 10 ^ (nd - k)) = Fin a) cands of
           Some (k, c) \<Rightarrow> if c = 10 ^ k then (10 ^ (k - 1), nd + 1) else (c, nd)
         | None \<Rightarrow> (\<lfloor>a / 10 ^ (nd - 17)\<rfloor>, nd))"

definition toString_exp :: "rat \<Rightarrow> string" where
  \<comment> \<open>Number::toString for a value of at least \<open>10^21\<close>: scientific notation\<close>
  "toString_exp a =
     (let (s, n) = shortest_digits a; ds = digits_of s
      in (if length ds = 1 then ds else hd ds # CHR ''.'' # tl ds)
         @ ''e+'' @ digits_of (int n - 1))"

definition toFixed :: "nat \<Rightarrow> number \<Rightarrow> string" where
  \<comment> \<open>\<open>x.toFixed(f)\<close>: a value that is not finite prints as its name, one of \<open>10^21\<close> or
     more as \<open>toString\<close> prints it; otherwise the integer nearest to \<open>x * 10^f\<close> (the
     larger of two) is written with a point before its last \<open>f\<close> digits\<close>
  "toFixed f x =
     (case x of
        NaN \<Rightarrow> ''NaN''
      | PosInf \<Rightarrow> ''Infinity''
      | NegInf \<Rightarrow> ''-Infinity''
      | Fin q \<Rightarrow>
          (let s = (if q < 0 then ''-'' else []); a = \<bar>q\<bar>
           in if 10 ^ 21 \<le> a then s @ toString_exp a
              else let n = \<lfloor>a * 10 ^ f + 1 / 2\<rfloor>;
                       m = digits_of n;
                       m = (if f \<noteq> 0
                            then (let m = (if length m \<le> f
                                           then replicate (f + 1 - length m) CHR ''0'' @ m
                                           else m);
                                      k = length m
                                  in take (k - f) m @ ''.'' @ drop (k - f) m)
                            else m)
                   in s @ m))"

subsection \<open>parseFloat\<close>

text \<open>Leading white space is skipped, then the longest prefix that is a decimal literal
  (sign, \<open>Infinity\<close> or digits with an optional point and exponent) is read; the
  result is NaN when there is none, and otherwise the double nearest to the literal.\<close>

definition is_ws :: "char \<Rightarrow> bool" where
  \<comment> \<open>TAB, LF, VT, FF, CR, SP\<close>
  "is_ws c = (c \<in> {CHR 0x09, CHR 0x0A, CHR 0x0B, CHR 0x0C, CHR 0x0D, CHR 0x20})"

definition split_sign :: "string \<Rightarrow> bool \<times> string" where
  "split_sign t =
     (case t of
        [] \<Rightarrow> (False, [])
      | c # r \<Rightarrow> if c = CHR ''-'' then (True, r) else if c = CHR ''+'' then (False, r)
                 else (False, t))"

definition parse_exponent :: "string \<Rightarrow> int" where
  \<comment> \<open>ExponentPart, when one follows; otherwise the literal ends before it\<close>
  "parse_exponent r =
     (case r of
        [] \<Rightarrow> 0
      | c # r' \<Rightarrow>
          if c = CHR ''e'' \<or> c = CHR ''E''
          then (let (neg, d) = split_sign r'; ds = takeWhile is_digit d
                in if ds = [] then 0
                   else if neg then - int_of_digits ds else int_of_digits ds)
          else 0)"

definition parseFloat :: "string \<Rightarrow> number" where
  \<comment> \<open>the longest prefix of the trimmed string that is a StrDecimalLiteral\<close>
  "parseFloat str =
     (let (neg, u) = split_sign (dropWhile is_ws str)
      in if take 8 u = ''Infinity'' then (if neg then NegInf else PosInf)
         else let ip = takeWhile is_digit u; r1 = dropWhile is_digit u;
                  (fp, r2) = (case r1 of
                                [] \<Rightarrow> ([], [])
                              | c # r \<Rightarrow> if c = CHR ''.''
                                         then (takeWhile is_digit r, dropWhile is_digit r)
                                         else ([], r1))
              in if ip = [] \<and> fp = [] then NaN
                 else let mv = of_int (int_of_digits (ip @ fp))
                                * pow10 (parse_exponent r2 - int (length fp))
                      in toDouble (if neg then - mv else mv))"

subsection \<open>toLocaleString and the amount pattern\<close>

function group3 :: "string \<Rightarrow> string" where
  "group3 ds =
     (if length ds \<le> 3 then ds
      else group3 (take (length ds - 3) ds) @ '','' @ drop (length ds - 3) ds)"
  by pat_completeness auto
termination
  by (relation "measure length") auto

declare group3.simps [simp del]

definition toLocaleString :: "int \<Rightarrow> string" where
  \<comment> \<open>of an integer, in the en-US locale: groups of three digits\<close>
  "toLocaleString n = group3 (digits_of n)"

definition amount_regex_test :: "string \<Rightarrow> bool" where
  \<comment> \<open>\<^verbatim>\<open>/^\d*\.?\d*$/.test(value)\<close>: digits, at most one point, digits, end of input\<close>
  "amount_regex_test v =
     (case dropWhile is_digit v of
        [] \<Rightarrow> True
      | c # r \<Rightarrow> c = CHR ''.'' \<and> list_all is_digit r)"

section \<open>The swap form\<close>

subsection \<open>Data\<close>

record RawCryptoData =
  currency :: string
  date :: string
  price :: number

record CryptoCurrency =
  code :: string
  name :: string
  priceInUSD :: number

text \<open>\<open>MAX_AMOUNT\<close> is the literal \<open>1_000_000_000_000\<close>: as the integer that
  \<open>toLocaleString\<close> prints, and as the number the amount is compared with.\<close>

definition MAX_AMOUNT_int :: int where
  "MAX_AMOUNT_int = 1000000000000"

definition MAX_AMOUNT :: number where
  "MAX_AMOUNT = Fin (of_int MAX_AMOUNT_int)"

text \<open>A JavaScript \<open>Map\<close> keeps its keys in the order of their first insertion:
  \<open>set\<close> on a present key replaces the value in place, on a new key it appends.\<close>

type_synonym prices = "(string \<times> number) list"

fun map_set :: "prices \<Rightarrow> string \<Rightarrow> number \<Rightarrow> prices" where
  "map_set [] k v = [(k, v)]"
| "map_set ((k', v') # m) k v = (if k' = k then (k, v) # m else (k', v') # map_set m k v)"

fun map_get :: "prices \<Rightarrow> string \<Rightarrow> number option" where
  "map_get [] k = None"
| "map_get ((k', v') # m) k = (if k' = k then Some v' else map_get m k)"

fun map_keys :: "prices \<Rightarrow> string list" where
  "map_keys [] = []"
| "map_keys ((k, v) # m) = k # map_keys m"

text \<open>The state of the component: its \<open>useState\<close> cells and the \<open>toCurrencyError\<close> ref.\<close>

record swap_state =
  amountToSend :: string
  fromCurrency :: "CryptoCurrency option"
  toCurrency :: "CryptoCurrency option"
  amountToReceive :: string
  exchangeRate :: number
  isSwapping :: bool
  allCryptoCurrencies :: "CryptoCurrency list"
  cryptoPricesInUSD :: prices
  isLoading :: bool
  fetchError :: "string option"
  amountError :: string
  fromCurrencyError :: string
  toCurrencyError :: string

definition initial_state :: swap_state where
  "initial_state =
     \<lparr>amountToSend = ''100'', fromCurrency = None, toCurrency = None,
      amountToReceive = ''0.00'', exchangeRate = Fin 0, isSwapping = False,
      allCryptoCurrencies = [], cryptoPricesInUSD = [], isLoading = True,
      fetchError = None, amountError = [], fromCurrencyError = [],
      toCurrencyError = []\<rparr>"

subsection \<open>Price loader\<close>

definition pricesMap :: "RawCryptoData list \<Rightarrow> prices" where
  \<comment> \<open>\<open>rawData.forEach\<close> over an empty \<open>Map\<close>\<close>
  "pricesMap rawData =
     foldl (\<lambda>m d. if js_gt (price d) (Fin 0) then map_set m (currency d) (price d) else m)
       [] rawData"

definition processed :: "prices \<Rightarrow> CryptoCurrency list" where
  "processed m = map (\<lambda>(c, p). \<lparr>code = c, name = c, priceInUSD = p\<rparr>) m"

definition fetchCryptoData :: "RawCryptoData list option \<Rightarrow> swap_state \<Rightarrow> swap_state" where
  \<comment> \<open>the response is \<open>None\<close> when the request throws\<close>
  "fetchCryptoData response s =
     (let s = s\<lparr>isLoading := True\<rparr>;
          s = (case response of
                 None \<Rightarrow>
                   s\<lparr>fetchError :=
                       Some ''Failed to load cryptocurrency prices. Please try again later.''\<rparr>
               | Some rawData \<Rightarrow>
                   (let m = pricesMap rawData; ps = processed m;
                        s = s\<lparr>allCryptoCurrencies := ps, cryptoPricesInUSD := m\<rparr>
                    in case ps of
                         [] \<Rightarrow> s
                       | [p0] \<Rightarrow> s\<lparr>fromCurrency := Some p0\<rparr>
                       | p0 # p1 # _ \<Rightarrow> s\<lparr>fromCurrency := Some p0, toCurrency := Some p1\<rparr>))
      in s\<lparr>isLoading := False\<rparr>)"

subsection \<open>Form validator\<close>

text \<open>\<open>validateForm\<close> runs four checks in sequence; each one takes the state and the
  \<open>isValid\<close> flag and returns both.\<close>

definition validate_amount :: "swap_state \<times> bool \<Rightarrow> swap_state \<times> bool" where
  "validate_amount = (\<lambda>(s, isValid).
     let amount = parseFloat (amountToSend s)
     in if amountToSend s = [] then (s\<lparr>amountError := ''Amount is required.''\<rparr>, False)
        else if isNaN amount \<or> js_le amount (Fin 0)
        then (s\<lparr>amountError := ''Please enter a positive amount.''\<rparr>, False)
        else if js_gt amount MAX_AMOUNT
        then (s\<lparr>amountError :=
                ''Amount cannot exceed '' @ toLocaleString MAX_AMOUNT_int @ ''.''\<rparr>, False)
        else (s\<lparr>amountError := []\<rparr>, isValid))"

definition validate_from :: "swap_state \<times> bool \<Rightarrow> swap_state \<times> bool" where
  "validate_from = (\<lambda>(s, isValid).
     if fromCurrency s = None
     then (s\<lparr>fromCurrencyError := ''Please select a \"From\" currency.''\<rparr>, False)
     else (s\<lparr>fromCurrencyError := []\<rparr>, isValid))"

definition validate_to :: "swap_state \<times> bool \<Rightarrow> swap_state \<times> bool" where
  "validate_to = (\<lambda>(s, isValid).
     if toCurrency s = None
     then (s\<lparr>toCurrencyError := ''Please select a \"To\" currency.''\<rparr>, False)
     else (s\<lparr>toCurrencyError := []\<rparr>, isValid))"

definition validate_differ :: "swap_state \<times> bool \<Rightarrow> swap_state \<times> bool" where
  "validate_differ = (\<lambda>(s, isValid).
     case (fromCurrency s, toCurrency s) of
       (Some fc, Some tc) \<Rightarrow>
         if code fc = code tc
         then (s\<lparr>fromCurrencyError := ''Currencies cannot be the same.'',
                  toCurrencyError := ''Currencies cannot be the same.''\<rparr>, False)
         else (s, isValid)
     | _ \<Rightarrow> (s, isValid))"

definition validateForm :: "swap_state \<Rightarrow> swap_state \<times> bool" where
  "validateForm s =
     validate_differ (validate_to (validate_from (validate_amount (s, True))))"

definition isFormValid :: "swap_state \<Rightarrow> bool" where
  "isFormValid s =
     (case (fromCurrency s, toCurrency s) of
        (Some fc, Some tc) \<Rightarrow>
          code fc \<noteq> code tc \<and>
          js_gt (parseFloat (amountToSend s)) (Fin 0) \<and>
          js_le (parseFloat (amountToSend s)) MAX_AMOUNT \<and>
          amountError s = [] \<and> fromCurrencyError s = [] \<and> toCurrencyError s = []
      | _ \<Rightarrow> False)"

subsection \<open>Swap calculator\<close>

definition no_result :: "swap_state \<Rightarrow> swap_state" where
  "no_result s = s\<lparr>amountToReceive := ''0.00'', exchangeRate := Fin 0\<rparr>"

definition calculateAmountToReceive :: "swap_state \<Rightarrow> swap_state" where
  "calculateAmountToReceive s =
     (let amount = parseFloat (amountToSend s)
      in case (fromCurrency s, toCurrency s) of
           (Some fc, Some tc) \<Rightarrow>
             if js_gt amount (Fin 0) \<and> js_le amount MAX_AMOUNT \<and> code fc \<noteq> code tc
             then (case (map_get (cryptoPricesInUSD s) (code fc),
                         map_get (cryptoPricesInUSD s) (code tc)) of
                     (Some fromPrice, Some toPrice) \<Rightarrow>
                       if truthy fromPrice \<and> truthy toPrice
                       then (let rate = js_div toPrice fromPrice
                             in s\<lparr>exchangeRate := rate,
                                  amountToReceive := toFixed 8 (js_mul amount rate)\<rparr>)
                       else no_result s
                   | _ \<Rightarrow> no_result s)
             else no_result s
         | _ \<Rightarrow> no_result s)"

subsection \<open>Event handlers and effects\<close>

definition handleAmountChange :: "string \<Rightarrow> swap_state \<Rightarrow> swap_state" where
  "handleAmountChange v s =
     (if amount_regex_test v \<or> v = [] then s\<lparr>amountToSend := v\<rparr> else s)"

definition handleClearAmount :: "swap_state \<Rightarrow> swap_state" where
  "handleClearAmount s = s\<lparr>amountToSend := ''0'', amountError := []\<rparr>"

definition handleFromCurrencyChange :: "CryptoCurrency option \<Rightarrow> swap_state \<Rightarrow> swap_state" where
  "handleFromCurrencyChange newValue s = s\<lparr>fromCurrency := newValue\<rparr>"

definition handleToCurrencyChange :: "CryptoCurrency option \<Rightarrow> swap_state \<Rightarrow> swap_state" where
  "handleToCurrencyChange newValue s = s\<lparr>toCurrency := newValue\<rparr>"

definition handleSwapCurrencies :: "swap_state \<Rightarrow> swap_state" where
  "handleSwapCurrencies s =
     (let temp = fromCurrency s in s\<lparr>fromCurrency := toCurrency s, toCurrency := temp\<rparr>)"

definition handleSwap :: "swap_state \<Rightarrow> swap_state" where
  \<comment> \<open>the completion two seconds later clears \<open>isSwapping\<close> again\<close>
  "handleSwap s = (let (s', ok) = validateForm s in if ok then s'\<lparr>isSwapping := True\<rparr> else s')"

datatype event =
    AmountChange string
  | ClearAmount
  | FromCurrencyChange "CryptoCurrency option"
  | ToCurrencyChange "CryptoCurrency option"
  | SwapCurrencies
  | Swap
  | SwapDone

fun handle :: "event \<Rightarrow> swap_state \<Rightarrow> swap_state" where
  "handle (AmountChange v) s = handleAmountChange v s"
| "handle ClearAmount s = handleClearAmount s"
| "handle (FromCurrencyChange c) s = handleFromCurrencyChange c s"
| "handle (ToCurrencyChange c) s = handleToCurrencyChange c s"
| "handle SwapCurrencies s = handleSwapCurrencies s"
| "handle Swap s = handleSwap s"
| "handle SwapDone s = s\<lparr>isSwapping := False\<rparr>"

definition run_effects :: "swap_state \<Rightarrow> swap_state" where
  \<comment> \<open>the two \<open>useEffect\<close> bodies in their order, both run: as after the first render and
     after the load has selected the currencies\<close>
  "run_effects s =
     fst (validateForm
       (if \<not> isLoading s \<and> fetchError s = None then calculateAmountToReceive s else s))"

text \<open>After a later render an effect runs again only when one of its dependencies has
  changed.  The calculation depends on the amount, the two currencies, the price map,
  \<open>isLoading\<close> and \<open>fetchError\<close>; the validation on the amount and the two
  currencies.  A selected currency is one of the objects of \<open>allCryptoCurrencies\<close>, one
  per code, so comparing the records compares the references.\<close>

definition same_calculation_deps :: "swap_state \<Rightarrow> swap_state \<Rightarrow> bool" where
  "same_calculation_deps s s' =
     (amountToSend s' = amountToSend s \<and> fromCurrency s' = fromCurrency s \<and>
      toCurrency s' = toCurrency s \<and> cryptoPricesInUSD s' = cryptoPricesInUSD s \<and>
      isLoading s' = isLoading s \<and> fetchError s' = fetchError s)"

definition same_validation_deps :: "swap_state \<Rightarrow> swap_state \<Rightarrow> bool" where
  "same_validation_deps s s' =
     (amountToSend s' = amountToSend s \<and> fromCurrency s' = fromCurrency s \<and>
      toCurrency s' = toCurrency s)"

definition effects_after :: "swap_state \<Rightarrow> swap_state \<Rightarrow> swap_state" where
  \<comment> \<open>\<open>s\<close> is the state of the previous render, \<open>s'\<close> the state the handler left\<close>
  "effects_after s s' =
     (let s1 = (if same_calculation_deps s s' then s'
                else if \<not> isLoading s' \<and> fetchError s' = None
                then calculateAmountToReceive s' else s')
      in if same_validation_deps s s' then s1 else fst (validateForm s1))"

definition dispatch :: "swap_state \<Rightarrow> event \<Rightarrow> swap_state" where
  \<comment> \<open>one event of the form: its handler, then the effects of the render it causes\<close>
  "dispatch s ev = effects_after s (handle ev s)"

section \<open>Vocabulary of the specification\<close>

text \<open>The terms in which the specification states its properties, each written as an
  executable predicate.\<close>

definition same_currency :: "swap_state \<Rightarrow> bool" where
  \<comment> \<open>both currencies are selected and their codes are equal\<close>
  "same_currency s =
     (case (fromCurrency s, toCurrency s) of
        (Some fc, Some tc) \<Rightarrow> code fc = code tc
      | _ \<Rightarrow> False)"

definition amount_in_range :: "string \<Rightarrow> bool" where
  \<comment> \<open>the amount parses to a number in \<open>(0, 10^12]\<close>\<close>
  "amount_in_range str = (js_gt (parseFloat str) (Fin 0) \<and> js_le (parseFloat str) MAX_AMOUNT)"

definition known_positive_price :: "prices \<Rightarrow> string \<Rightarrow> bool" where
  \<comment> \<open>the currency has a price in the map, and it is positive\<close>
  "known_positive_price m c = (case map_get m c of Some p \<Rightarrow> js_gt p (Fin 0) | None \<Rightarrow> False)"

definition swappable :: "swap_state \<Rightarrow> bool" where
  \<comment> \<open>every precondition of a non-zero result: both currencies selected, codes distinct,
     both with a known positive price, the amount in range\<close>
  "swappable s =
     (case (fromCurrency s, toCurrency s) of
        (Some fc, Some tc) \<Rightarrow>
          code fc \<noteq> code tc \<and>
          known_positive_price (cryptoPricesInUSD s) (code fc) \<and>
          known_positive_price (cryptoPricesInUSD s) (code tc) \<and>
          amount_in_range (amountToSend s)
      | _ \<Rightarrow> False)"

definition retained :: "RawCryptoData list \<Rightarrow> RawCryptoData list" where
  \<comment> \<open>the records of the feed that are kept: only positive prices are retained\<close>
  "retained rawData = filter (\<lambda>d. js_gt (price d) (Fin 0)) rawData"

definition last_seen_price :: "RawCryptoData list \<Rightarrow> string \<Rightarrow> number option" where
  \<comment> \<open>the price of the last record of a list that names the currency\<close>
  "last_seen_price rawData c = map_option price (find (\<lambda>d. currency d = c) (rev rawData))"

definition last_positive_price :: "RawCryptoData list \<Rightarrow> string \<Rightarrow> number option" where
  \<comment> \<open>the price of the last record that names the currency with a positive price\<close>
  "last_positive_price rawData c =
     map_option price (find (\<lambda>d. currency d = c \<and> js_gt (price d) (Fin 0)) (rev rawData))"

definition plain_decimal :: "string \<Rightarrow> bool" where
  \<comment> \<open>digits with at most one decimal point: no sign, no exponent, no letters\<close>
  "plain_decimal v =
     (list_all (\<lambda>c. is_digit c \<or> c = CHR ''.'') v \<and> length (filter (\<lambda>c. c = CHR ''.'') v) \<le> 1)"

definition fixed_format :: "nat \<Rightarrow> string \<Rightarrow> bool" where
  \<comment> \<open>one or more digits, a point, exactly \<open>f\<close> digits\<close>
  "fixed_format f str =
     (takeWhile is_digit str \<noteq> [] \<and>
      (case dropWhile is_digit str of
         [] \<Rightarrow> False
       | c # fp \<Rightarrow> c = CHR ''.'' \<and> length fp = f \<and> list_all is_digit fp))"

definition scaled_value :: "string \<Rightarrow> int" where
  \<comment> \<open>the integer a decimal string denotes once its point is dropped\<close>
  "scaled_value str = int_of_digits (filter is_digit str)"

fun nonneg :: "number \<Rightarrow> bool" where
  \<comment> \<open>not below zero (NaN counts: it is never a negative value)\<close>
  "nonneg (Fin q) = (0 \<le> q)"
| "nonneg PosInf = True"
| "nonneg NaN = True"
| "nonneg NegInf = False"

section \<open>Auxiliary facts\<close>

lemma point_not_digit: "\<not> is_digit CHR ''.''"
  by (simp add: is_digit_def)

lemma is_digit_digit_char: "is_digit (digit_char d)"
proof -
  have "nat (d mod 10) < length ''0123456789''"
    by simp
  then have "''0123456789'' ! nat (d mod 10) \<in> set ''0123456789''"
    by (rule nth_mem)
  then show ?thesis
    by (simp only: is_digit_def digit_char_def)
qed

lemma digit_val_digit_char: "0 \<le> d \<Longrightarrow> d < 10 \<Longrightarrow> digit_val (digit_char d) = d"
proof -
  assume "0 \<le> d" "d < 10"
  then have "d = 0 \<or> d = 1 \<or> d = 2 \<or> d = 3 \<or> d = 4 \<or> d = 5 \<or> d = 6 \<or> d = 7 \<or> d = 8 \<or> d = 9"
    by arith
  then show ?thesis
    by (elim disjE) (simp_all add: digit_val_def digit_char_def)
qed

lemma int_of_digits_snoc: "int_of_digits (ds @ [c]) = 10 * int_of_digits ds + digit_val c"
  by (simp add: int_of_digits_def)

lemma digits_of_digits: "list_all is_digit (digits_of n)"
proof (induction n rule: digits_of.induct)
  case (1 n)
  show ?case
  proof (cases "n < 10")
    case True
    then show ?thesis
      by (subst digits_of.simps) (simp add: is_digit_digit_char)
  next
    case False
    with 1 show ?thesis
      by (subst digits_of.simps) (simp add: is_digit_digit_char)
  qed
qed

lemma digits_of_nonempty: "digits_of n \<noteq> []"
  by (subst digits_of.simps) simp

lemma int_of_digits_of: "0 \<le> n \<Longrightarrow> int_of_digits (digits_of n) = n"
proof (induction n rule: digits_of.induct)
  case (1 n)
  show ?case
  proof (cases "n < 10")
    case True
    with 1(2) show ?thesis
      by (subst digits_of.simps) (simp add: int_of_digits_def digit_val_digit_char)
  next
    case False
    with 1(2) have "0 \<le> n div 10" by simp
    with 1(1) False have ih: "int_of_digits (digits_of (n div 10)) = n div 10" by simp
    have "0 \<le> n mod 10" "n mod 10 < 10" by simp_all
    then have "digit_val (digit_char (n mod 10)) = n mod 10"
      by (rule digit_val_digit_char)
    with ih False show ?thesis
      by (subst digits_of.simps) (simp add: int_of_digits_snoc)
  qed
qed

lemma int_of_digits_zeros: "int_of_digits (replicate k CHR ''0'' @ ds) = int_of_digits ds"
proof -
  have z: "digit_val CHR ''0'' = 0"
    by (simp add: digit_val_def)
  have "foldl (\<lambda>acc c. 10 * acc + digit_val c) 0 (replicate k CHR ''0'') = 0"
    by (induction k) (simp_all add: z)
  then show ?thesis
    by (simp add: int_of_digits_def)
qed

lemma zeros_digits: "list_all is_digit (replicate k CHR ''0'')"
  by (induction k) (simp_all add: is_digit_def)

lemma split_at_point:
  assumes "list_all is_digit m" and "f < length m"
  shows "fixed_format f (take (length m - f) m @ ''.'' @ drop (length m - f) m)"
    and "scaled_value (take (length m - f) m @ ''.'' @ drop (length m - f) m) = int_of_digits m"
proof -
  define ip where "ip = take (length m - f) m"
  define fp where "fp = drop (length m - f) m"
  have m: "m = ip @ fp" by (simp add: ip_def fp_def)
  from assms(1) m have dip: "list_all is_digit ip" and dfp: "list_all is_digit fp"
    by (metis list_all_append)+
  from assms(2) have ne: "ip \<noteq> []" and len: "length fp = f"
    by (auto simp: ip_def fp_def)
  from dip have all: "\<And>x. x \<in> set ip \<Longrightarrow> is_digit x"
    by (simp add: list_all_iff)
  have tw: "takeWhile is_digit (ip @ CHR ''.'' # fp) = ip"
    using all by (simp add: point_not_digit)
  have dw: "dropWhile is_digit (ip @ CHR ''.'' # fp) = CHR ''.'' # fp"
    using all by (simp add: point_not_digit)
  have flt: "filter is_digit (ip @ CHR ''.'' # fp) = ip @ fp"
    using dip dfp by (simp add: point_not_digit list_all_iff)
  have eq: "take (length m - f) m @ ''.'' @ drop (length m - f) m = ip @ CHR ''.'' # fp"
    by (simp add: ip_def fp_def)
  show "fixed_format f (take (length m - f) m @ ''.'' @ drop (length m - f) m)"
    unfolding eq fixed_format_def tw dw using ne len dfp by simp
  show "scaled_value (take (length m - f) m @ ''.'' @ drop (length m - f) m) = int_of_digits m"
    unfolding eq scaled_value_def flt using m by simp
qed

lemma toFixed_format:
  assumes "0 \<le> v" and "v < 10 ^ 21" and "f \<noteq> 0"
  shows "fixed_format f (toFixed f (Fin v)) \<and>
         scaled_value (toFixed f (Fin v)) = \<lfloor>v * 10 ^ f + 1 / 2\<rfloor>"
proof -
  define n where "n = \<lfloor>v * 10 ^ f + 1 / 2\<rfloor>"
  define m where "m = (if length (digits_of n) \<le> f
                        then replicate (f + 1 - length (digits_of n)) CHR ''0'' @ digits_of n
                        else digits_of n)"
  from assms(1) have "0 \<le> v * 10 ^ f + 1 / 2" by simp
  then have n0: "0 \<le> n" by (simp add: n_def)
  have dm: "list_all is_digit m"
    by (simp add: m_def digits_of_digits zeros_digits)
  have lm: "f < length m"
    by (auto simp: m_def)
  have vm: "int_of_digits m = n"
    using n0 by (simp add: m_def int_of_digits_zeros int_of_digits_of)
  have tf: "toFixed f (Fin v) = take (length m - f) m @ ''.'' @ drop (length m - f) m"
    using assms by (simp add: toFixed_def Let_def m_def n_def)
  show ?thesis
    using split_at_point [OF dm lm] vm by (simp add: tf n_def)
qed

lemma pow2_pos: "0 < pow2 e"
  by (simp add: pow2_def)

lemma round_half_even_nonneg: "0 \<le> q \<Longrightarrow> 0 \<le> round_half_even q"
proof -
  assume "0 \<le> q"
  then have "0 \<le> \<lfloor>q\<rfloor>" by simp
  then show ?thesis
    by (auto simp: round_half_even_def Let_def)
qed

lemma toDouble_nonneg:
  assumes "0 \<le> q" and "toDouble q = Fin r"
  shows "0 \<le> r"
proof (cases "q = 0")
  case True
  with assms(2) show ?thesis by (simp add: toDouble_def)
next
  case False
  with assms(1) have pos: "0 < q" by simp
  define ulp where "ulp = pow2 (max (floor_log2 \<bar>q\<bar>) (- 1022) - 52)"
  have u: "0 < ulp" by (simp add: ulp_def pow2_pos)
  with pos have "0 \<le> \<bar>q\<bar> / ulp" by simp
  then have "0 \<le> round_half_even (\<bar>q\<bar> / ulp)" by (rule round_half_even_nonneg)
  with u have nn: "0 \<le> of_int (round_half_even (\<bar>q\<bar> / ulp)) * ulp" by simp
  from assms(2) pos False have "r = of_int (round_half_even (\<bar>q\<bar> / ulp)) * ulp"
    by (simp add: toDouble_def Let_def ulp_def split: if_splits)
  with nn show ?thesis by simp
qed

lemma toDouble_sign: "0 \<le> q \<Longrightarrow> nonneg (toDouble q)"
proof -
  assume q: "0 \<le> q"
  show ?thesis
  proof (cases "toDouble q")
    case (Fin r)
    with q toDouble_nonneg show ?thesis by simp
  next
    case NegInf
    with q show ?thesis
      by (simp add: toDouble_def Let_def split: if_splits)
  qed simp_all
qed

lemma js_div_nonneg: "js_gt x (Fin 0) \<Longrightarrow> js_gt y (Fin 0) \<Longrightarrow> nonneg (js_div y x)"
  by (cases x; cases y) (simp_all add: toDouble_sign)

lemma js_mul_nonneg: "js_gt x (Fin 0) \<Longrightarrow> nonneg y \<Longrightarrow> nonneg (js_mul x y)"
  by (cases x; cases y) (simp_all add: toDouble_sign)

lemma map_get_map_set: "map_get (map_set m k v) k' = (if k' = k then Some v else map_get m k')"
  by (induction m) auto

lemma keys_map_set: "set (map_keys (map_set m k v)) = insert k (set (map_keys m))"
  by (induction m) (auto split: if_splits)

lemma distinct_map_set: "distinct (map_keys m) \<Longrightarrow> distinct (map_keys (map_set m k v))"
  by (induction m) (auto simp: keys_map_set)

lemma map_get_None: "map_get m k = None \<longleftrightarrow> k \<notin> set (map_keys m)"
  by (induction m) (auto split: if_splits)

lemma map_get_mem: "(k, v) \<in> set m \<Longrightarrow> distinct (map_keys m) \<Longrightarrow> map_get m k = Some v"
proof (induction m)
  case Nil
  then show ?case by simp
next
  case (Cons p m)
  obtain k' v' where p: "p = (k', v')" by (cases p)
  show ?case
  proof (cases "k' = k")
    case True
    with Cons.prems p have "k \<notin> set (map_keys m)" by simp
    then have "map_get m k = None" by (simp add: map_get_None)
    with Cons.prems Cons.IH p True show ?thesis by auto
  next
    case False
    with Cons p show ?thesis by auto
  qed
qed

lemma pricesMap_Nil: "pricesMap [] = []"
  by (simp add: pricesMap_def)

lemma pricesMap_snoc:
  "pricesMap (ds @ [d]) =
     (if js_gt (price d) (Fin 0) then map_set (pricesMap ds) (currency d) (price d)
      else pricesMap ds)"
  by (simp add: pricesMap_def)

lemma pricesMap_get: "map_get (pricesMap rawData) c = last_positive_price rawData c"
  by (induction rawData rule: rev_induct)
     (auto simp: pricesMap_Nil pricesMap_snoc map_get_map_set last_positive_price_def)

lemma find_filter:
  "find P (filter Q xs) = find (\<lambda>x. P x \<and> Q x) xs"
  by (induction xs) auto

lemma last_seen_retained:
  "last_seen_price (retained rawData) c = last_positive_price rawData c"
  by (simp add: last_seen_price_def last_positive_price_def retained_def rev_filter find_filter)

lemma pricesMap_last_seen:
  "map_get (pricesMap rawData) c = last_seen_price (retained rawData) c"
  by (simp add: pricesMap_get last_seen_retained)

lemma pricesMap_keys:
  "set (map_keys (pricesMap rawData)) =
     {currency d | d. d \<in> set rawData \<and> js_gt (price d) (Fin 0)}"
  by (induction rawData rule: rev_induct)
     (auto simp: pricesMap_Nil pricesMap_snoc keys_map_set)

lemma pricesMap_distinct: "distinct (map_keys (pricesMap rawData))"
  by (induction rawData rule: rev_induct)
     (auto simp: pricesMap_Nil pricesMap_snoc distinct_map_set)

lemma pricesMap_positive: "map_get (pricesMap rawData) c = Some p \<Longrightarrow> js_gt p (Fin 0)"
  by (induction rawData rule: rev_induct)
     (auto simp: pricesMap_Nil pricesMap_snoc map_get_map_set split: if_splits)

lemma positive_truthy: "js_gt p (Fin 0) \<Longrightarrow> truthy p"
  by (cases p) auto

lemma processed_code: "map code (processed m) = map_keys m"
  by (induction m) (auto simp: processed_def)

lemma processed_entity:
  "e \<in> set (processed m) \<Longrightarrow> name e = code e \<and> (code e, priceInUSD e) \<in> set m"
  by (auto simp: processed_def)

lemma processed_lookup:
  assumes "e \<in> set (processed (pricesMap rawData))"
  shows "name e = code e \<and> map_get (pricesMap rawData) (code e) = Some (priceInUSD e)"
proof -
  from assms have "name e = code e" and "(code e, priceInUSD e) \<in> set (pricesMap rawData)"
    by (simp_all add: processed_entity)
  then show ?thesis
    by (simp add: map_get_mem pricesMap_distinct)
qed

lemma digits_no_point: "list_all is_digit r \<Longrightarrow> filter (\<lambda>c. c = CHR ''.'') r = []"
  by (induction r) (auto simp: point_not_digit)

lemma no_point_digits:
  "list_all (\<lambda>c. is_digit c \<or> c = CHR ''.'') r \<Longrightarrow> filter (\<lambda>c. c = CHR ''.'') r = []
   \<Longrightarrow> list_all is_digit r"
  by (induction r) (auto split: if_splits)

lemma digits_plain: "list_all is_digit r \<Longrightarrow> list_all (\<lambda>c. is_digit c \<or> c = CHR ''.'') r"
  by (induction r) auto

lemma regex_plain_decimal: "amount_regex_test v = plain_decimal v"
proof (induction v)
  case Nil
  show ?case by (simp add: amount_regex_test_def plain_decimal_def)
next
  case (Cons c v)
  show ?case
  proof (cases "is_digit c")
    case True
    then have "c \<noteq> CHR ''.''" using point_not_digit by auto
    with True Cons show ?thesis
      by (simp add: amount_regex_test_def plain_decimal_def)
  next
    case False
    show ?thesis
    proof (cases "c = CHR ''.''")
      case True
      have "list_all is_digit v \<longleftrightarrow>
            list_all (\<lambda>c. is_digit c \<or> c = CHR ''.'') v \<and> filter (\<lambda>c. c = CHR ''.'') v = []"
        using digits_no_point no_point_digits digits_plain by blast
      with True False show ?thesis
        by (simp add: amount_regex_test_def plain_decimal_def)
    next
      case c: False
      with False show ?thesis
        by (simp add: amount_regex_test_def plain_decimal_def)
    qed
  qed
qed

lemma validate_amount_keeps:
  "amountToSend (fst (validate_amount p)) = amountToSend (fst p) \<and>
   fromCurrency (fst (validate_amount p)) = fromCurrency (fst p) \<and>
   toCurrency (fst (validate_amount p)) = toCurrency (fst p)"
  by (cases p) (simp add: validate_amount_def Let_def)

lemma validate_from_keeps:
  "amountToSend (fst (validate_from p)) = amountToSend (fst p) \<and>
   fromCurrency (fst (validate_from p)) = fromCurrency (fst p) \<and>
   toCurrency (fst (validate_from p)) = toCurrency (fst p)"
  by (cases p) (simp add: validate_from_def)

lemma validate_to_keeps:
  "amountToSend (fst (validate_to p)) = amountToSend (fst p) \<and>
   fromCurrency (fst (validate_to p)) = fromCurrency (fst p) \<and>
   toCurrency (fst (validate_to p)) = toCurrency (fst p)"
  by (cases p) (simp add: validate_to_def)

lemma validate_differ_keeps:
  "amountToSend (fst (validate_differ p)) = amountToSend (fst p) \<and>
   fromCurrency (fst (validate_differ p)) = fromCurrency (fst p) \<and>
   toCurrency (fst (validate_differ p)) = toCurrency (fst p)"
  by (cases p) (simp add: validate_differ_def split: option.splits)

lemma validateForm_fields:
  "amountToSend (fst (validateForm s)) = amountToSend s"
  "fromCurrency (fst (validateForm s)) = fromCurrency s"
  "toCurrency (fst (validateForm s)) = toCurrency s"
  by (simp_all add: validateForm_def validate_amount_keeps validate_from_keeps
        validate_to_keeps validate_differ_keeps)

lemma calculate_fields:
  "amountToSend (calculateAmountToReceive s) = amountToSend s"
  "fromCurrency (calculateAmountToReceive s) = fromCurrency s"
  "toCurrency (calculateAmountToReceive s) = toCurrency s"
  by (simp_all add: calculateAmountToReceive_def no_result_def Let_def split: option.splits)

lemma run_effects_fields:
  "amountToSend (run_effects s) = amountToSend s"
  "fromCurrency (run_effects s) = fromCurrency s"
  "toCurrency (run_effects s) = toCurrency s"
  by (simp_all add: run_effects_def validateForm_fields calculate_fields)

lemma handleSwap_amount: "amountToSend (handleSwap s) = amountToSend s"
  using validateForm_fields(1) [of s]
  by (cases "validateForm s") (simp add: handleSwap_def)

lemma handle_plain:
  "plain_decimal (amountToSend s) \<Longrightarrow> plain_decimal (amountToSend (handle ev s))"
proof (cases ev)
  case (AmountChange v)
  assume "plain_decimal (amountToSend s)"
  with AmountChange show ?thesis
    by (auto simp: handleAmountChange_def regex_plain_decimal plain_decimal_def)
next
  case ClearAmount
  then show ?thesis
    by (simp add: handleClearAmount_def plain_decimal_def is_digit_def)
next
  case Swap
  assume "plain_decimal (amountToSend s)"
  with Swap show ?thesis by (simp add: handleSwap_amount)
qed (simp_all add: handleFromCurrencyChange_def handleToCurrencyChange_def
      handleSwapCurrencies_def Let_def)

lemma effects_after_fields:
  "amountToSend (effects_after s s') = amountToSend s'"
  "fromCurrency (effects_after s s') = fromCurrency s'"
  "toCurrency (effects_after s s') = toCurrency s'"
  by (simp_all add: effects_after_def Let_def validateForm_fields calculate_fields)

lemma dispatch_plain:
  "plain_decimal (amountToSend s) \<Longrightarrow> plain_decimal (amountToSend (dispatch s ev))"
  by (simp add: dispatch_def effects_after_fields handle_plain)

lemma foldl_dispatch_plain:
  "plain_decimal (amountToSend s) \<Longrightarrow> plain_decimal (amountToSend (foldl dispatch s evs))"
  by (induction evs arbitrary: s) (simp_all add: dispatch_plain)

lemma parseFloat_Nil: "parseFloat [] = NaN"
  by (simp add: parseFloat_def split_sign_def)

lemma ceiling_text: "toLocaleString MAX_AMOUNT_int = ''1,000,000,000,000''"
  by code_simp

lemma number_range_cases:
  "(js_gt a (Fin 0) \<and> js_le a MAX_AMOUNT) =
     (\<not> isNaN a \<and> \<not> js_le a (Fin 0) \<and> \<not> js_gt a MAX_AMOUNT)"
  by (cases a) (auto simp: MAX_AMOUNT_def MAX_AMOUNT_int_def)

lemma amount_in_range_nonempty: "amount_in_range str \<Longrightarrow> str \<noteq> []"
  by (auto simp: amount_in_range_def parseFloat_Nil)

lemma validate_amount_snd:
  "snd (validate_amount (s, v)) = (v \<and> amount_in_range (amountToSend s))"
  using amount_in_range_nonempty [of "amountToSend s"] number_range_cases [of "parseFloat (amountToSend s)"]
  by (auto simp: validate_amount_def Let_def amount_in_range_def)

lemma validate_amount_error:
  "amountError (fst (validate_amount (s, v))) =
     (if amountToSend s = [] then ''Amount is required.''
      else if isNaN (parseFloat (amountToSend s)) \<or> js_le (parseFloat (amountToSend s)) (Fin 0)
      then ''Please enter a positive amount.''
      else if js_gt (parseFloat (amountToSend s)) MAX_AMOUNT
      then ''Amount cannot exceed 1,000,000,000,000.''
      else [])"
  by (simp add: validate_amount_def Let_def ceiling_text)

lemma validate_amount_others:
  "fromCurrencyError (fst (validate_amount (s, v))) = fromCurrencyError s"
  "toCurrencyError (fst (validate_amount (s, v))) = toCurrencyError s"
  by (simp_all add: validate_amount_def Let_def)

lemma validate_from_result:
  "snd (validate_from p) = (snd p \<and> fromCurrency (fst p) \<noteq> None)"
  "fromCurrencyError (fst (validate_from p)) =
     (if fromCurrency (fst p) = None then ''Please select a \"From\" currency.'' else [])"
  "amountError (fst (validate_from p)) = amountError (fst p)"
  "toCurrencyError (fst (validate_from p)) = toCurrencyError (fst p)"
  by (cases p; simp add: validate_from_def)+

lemma validate_to_result:
  "snd (validate_to p) = (snd p \<and> toCurrency (fst p) \<noteq> None)"
  "toCurrencyError (fst (validate_to p)) =
     (if toCurrency (fst p) = None then ''Please select a \"To\" currency.'' else [])"
  "amountError (fst (validate_to p)) = amountError (fst p)"
  "fromCurrencyError (fst (validate_to p)) = fromCurrencyError (fst p)"
  by (cases p; simp add: validate_to_def)+

lemma validate_differ_result:
  "snd (validate_differ p) = (snd p \<and> \<not> same_currency (fst p))"
  "fromCurrencyError (fst (validate_differ p)) =
     (if same_currency (fst p) then ''Currencies cannot be the same.''
      else fromCurrencyError (fst p))"
  "toCurrencyError (fst (validate_differ p)) =
     (if same_currency (fst p) then ''Currencies cannot be the same.''
      else toCurrencyError (fst p))"
  "amountError (fst (validate_differ p)) = amountError (fst p)"
  by (cases p; simp add: validate_differ_def same_currency_def split: option.splits)+

lemma same_currency_steps:
  "same_currency (fst (validate_to (validate_from (validate_amount (s, True))))) = same_currency s"
  by (simp add: same_currency_def validate_amount_keeps validate_from_keeps validate_to_keeps)

lemma validateForm_snd:
  "snd (validateForm s) =
     (amount_in_range (amountToSend s) \<and> fromCurrency s \<noteq> None \<and> toCurrency s \<noteq> None \<and>
      \<not> same_currency s)"
  by (simp add: validateForm_def validate_differ_result validate_to_result validate_from_result
        validate_amount_snd same_currency_steps validate_amount_keeps validate_from_keeps)

lemma validateForm_amountError:
  "amountError (fst (validateForm s)) = amountError (fst (validate_amount (s, True)))"
  by (simp add: validateForm_def validate_differ_result validate_to_result validate_from_result)

lemma validateForm_fromCurrencyError:
  "fromCurrencyError (fst (validateForm s)) =
     (if same_currency s then ''Currencies cannot be the same.''
      else if fromCurrency s = None then ''Please select a \"From\" currency.'' else [])"
  by (simp add: validateForm_def validate_differ_result validate_to_result validate_from_result
        same_currency_steps validate_amount_keeps)

lemma validateForm_toCurrencyError:
  "toCurrencyError (fst (validateForm s)) =
     (if same_currency s then ''Currencies cannot be the same.''
      else if toCurrency s = None then ''Please select a \"To\" currency.'' else [])"
  by (simp add: validateForm_def validate_differ_result validate_to_result validate_from_result
        same_currency_steps validate_amount_keeps validate_from_keeps)

lemma isFormValid_eq:
  "isFormValid s =
     (fromCurrency s \<noteq> None \<and> toCurrency s \<noteq> None \<and> \<not> same_currency s \<and>
      amount_in_range (amountToSend s) \<and>
      amountError s = [] \<and> fromCurrencyError s = [] \<and> toCurrencyError s = [])"
  by (auto simp: isFormValid_def same_currency_def amount_in_range_def split: option.splits)

lemma calculate_success:
  assumes "fromCurrency s = Some fc" and "toCurrency s = Some tc" and "code fc \<noteq> code tc"
    and "amount_in_range (amountToSend s)"
    and "map_get (cryptoPricesInUSD s) (code fc) = Some px"
    and "map_get (cryptoPricesInUSD s) (code tc) = Some py"
    and "truthy px" and "truthy py"
  shows "calculateAmountToReceive s =
           s\<lparr>exchangeRate := js_div py px,
              amountToReceive := toFixed 8 (js_mul (parseFloat (amountToSend s)) (js_div py px))\<rparr>"
  using assms by (simp add: calculateAmountToReceive_def amount_in_range_def Let_def)

lemma calculate_unselected:
  "fromCurrency s = None \<or> toCurrency s = None \<Longrightarrow> calculateAmountToReceive s = no_result s"
  by (auto simp: calculateAmountToReceive_def Let_def split: option.splits)

lemma calculate_guard:
  assumes "fromCurrency s = Some fc" and "toCurrency s = Some tc"
    and "code fc = code tc \<or> \<not> amount_in_range (amountToSend s)"
  shows "calculateAmountToReceive s = no_result s"
  using assms by (auto simp: calculateAmountToReceive_def amount_in_range_def Let_def)

lemma calculate_unpriced:
  assumes "fromCurrency s = Some fc" and "toCurrency s = Some tc"
    and "map_get (cryptoPricesInUSD s) (code fc) = None \<or>
         map_get (cryptoPricesInUSD s) (code tc) = None"
  shows "calculateAmountToReceive s = no_result s"
  using assms by (auto simp: calculateAmountToReceive_def Let_def split: option.splits)

lemma loader_known_price:
  "known_positive_price (pricesMap rawData) c = (map_get (pricesMap rawData) c \<noteq> None)"
  using pricesMap_positive [of rawData c]
  by (auto simp: known_positive_price_def split: option.splits)

lemma calculate_not_swappable:
  assumes m: "cryptoPricesInUSD s = pricesMap rawData" and n: "\<not> swappable s"
  shows "calculateAmountToReceive s = no_result s"
proof (cases "fromCurrency s")
  case None
  then show ?thesis by (simp add: calculate_unselected)
next
  case fc: (Some fc)
  show ?thesis
  proof (cases "toCurrency s")
    case None
    then show ?thesis by (simp add: calculate_unselected)
  next
    case tc: (Some tc)
    from n fc tc m have
      "code fc = code tc \<or> \<not> amount_in_range (amountToSend s) \<or>
       map_get (cryptoPricesInUSD s) (code fc) = None \<or>
       map_get (cryptoPricesInUSD s) (code tc) = None"
      by (auto simp: swappable_def loader_known_price)
    with fc tc show ?thesis
      using calculate_guard [of s fc tc] calculate_unpriced [of s fc tc] by blast
  qed
qed

lemma no_result_fields:
  "amountToReceive (no_result s) = ''0.00''" "exchangeRate (no_result s) = Fin 0"
  by (simp_all add: no_result_def)

section \<open>Swap calculator\<close>

text \<open>
  C1, as stated: for an amount in \<open>(0, 10^12]\<close>, two distinct selected currencies and
  positive prices, the receive amount is the product of the amount and the rate formatted
  to exactly 8 decimal places.  \<open>toFixed\<close> writes a value of \<open>10^21\<close> or more in
  scientific notation.  With a token priced \<open>2^-17\<close> USD and one priced 65536 USD the rate
  is \<open>2^33\<close>, and \<open>10^12\<close> units give the receive amount \<open>8.589934592e+21\<close>.
\<close>

theorem receive_amount_exponential_counterexample:
  "amount_in_range ''1000000000000'' \<and>
   amountToReceive (dispatch (run_effects (fetchCryptoData (Some
     [\<lparr>currency = ''SHIB'', date = ''2023-08-29T07:10:40.000Z'', price = Fin (1 / 131072)\<rparr>,
      \<lparr>currency = ''BTC'', date = ''2023-08-29T07:10:52.000Z'', price = Fin 65536\<rparr>])
     initial_state)) (AmountChange ''1000000000000'')) = ''8.589934592e+21'' \<and>
   \<not> fixed_format 8 ''8.589934592e+21''"
  by code_simp

text \<open>
  C1, amended: under the same preconditions the exchange rate is the double quotient
  \<open>p[to] / p[from]\<close> and the receive amount is \<open>toFixed(8)\<close> of the double product of the
  amount and the rate; whenever that product is finite and below \<open>10^21\<close> the string is
  digits, a point and exactly 8 digits, and denotes the product rounded half up at the
  eighth decimal.
\<close>

theorem receive_amount_is_fixed_product:
  assumes "fromCurrency s = Some fc" and "toCurrency s = Some tc" and "code fc \<noteq> code tc"
    and "parseFloat (amountToSend s) = a" and "js_gt a (Fin 0)" and "js_le a MAX_AMOUNT"
    and "map_get (cryptoPricesInUSD s) (code fc) = Some px"
    and "map_get (cryptoPricesInUSD s) (code tc) = Some py"
    and "js_gt px (Fin 0)" and "js_gt py (Fin 0)"
  shows "exchangeRate (calculateAmountToReceive s) = js_div py px \<and>
         amountToReceive (calculateAmountToReceive s) = toFixed 8 (js_mul a (js_div py px)) \<and>
         (\<forall>v. js_mul a (js_div py px) = Fin v \<and> v < 10 ^ 21 \<longrightarrow>
            fixed_format 8 (amountToReceive (calculateAmountToReceive s)) \<and>
            scaled_value (amountToReceive (calculateAmountToReceive s)) = \<lfloor>v * 10 ^ 8 + 1 / 2\<rfloor>)"
proof -
  from assms have range: "amount_in_range (amountToSend s)"
    by (simp add: amount_in_range_def)
  from assms have t: "truthy px" "truthy py"
    by (simp_all add: positive_truthy)
  have calc: "calculateAmountToReceive s =
      s\<lparr>exchangeRate := js_div py px, amountToReceive := toFixed 8 (js_mul a (js_div py px))\<rparr>"
    using calculate_success [OF assms(1,2,3) range assms(7,8) t] assms(4) by simp
  have fmt: "fixed_format 8 (toFixed 8 (Fin v)) \<and>
             scaled_value (toFixed 8 (Fin v)) = \<lfloor>v * 10 ^ 8 + 1 / 2\<rfloor>"
    if v: "js_mul a (js_div py px) = Fin v" "v < 10 ^ 21" for v
  proof -
    have "nonneg (js_div py px)"
      using assms(9,10) by (rule js_div_nonneg)
    with assms(5) have "nonneg (js_mul a (js_div py px))"
      by (rule js_mul_nonneg)
    with v(1) have "0 \<le> v" by simp
    with v(2) show ?thesis
      using toFixed_format [of v 8] by simp
  qed
  show ?thesis
    using calc fmt by simp
qed

theorem receive_amount_is_fixed_product_witness:
  "exchangeRate (calculateAmountToReceive
     (initial_state
        \<lparr>amountToSend := ''2'',
         fromCurrency := Some \<lparr>code = ''BTC'', name = ''BTC'', priceInUSD = Fin 50000\<rparr>,
         toCurrency := Some \<lparr>code = ''ETH'', name = ''ETH'', priceInUSD = Fin 2500\<rparr>,
         cryptoPricesInUSD := [(''BTC'', Fin 50000), (''ETH'', Fin 2500)]\<rparr>))
     = js_div (Fin 2500) (Fin 50000) \<and>
   amountToReceive (calculateAmountToReceive
     (initial_state
        \<lparr>amountToSend := ''2'',
         fromCurrency := Some \<lparr>code = ''BTC'', name = ''BTC'', priceInUSD = Fin 50000\<rparr>,
         toCurrency := Some \<lparr>code = ''ETH'', name = ''ETH'', priceInUSD = Fin 2500\<rparr>,
         cryptoPricesInUSD := [(''BTC'', Fin 50000), (''ETH'', Fin 2500)]\<rparr>))
     = toFixed 8 (js_mul (Fin 2) (js_div (Fin 2500) (Fin 50000))) \<and>
   fixed_format 8 (amountToReceive (calculateAmountToReceive
     (initial_state
        \<lparr>amountToSend := ''2'',
         fromCurrency := Some \<lparr>code = ''BTC'', name = ''BTC'', priceInUSD = Fin 50000\<rparr>,
         toCurrency := Some \<lparr>code = ''ETH'', name = ''ETH'', priceInUSD = Fin 2500\<rparr>,
         cryptoPricesInUSD := [(''BTC'', Fin 50000), (''ETH'', Fin 2500)]\<rparr>))) \<and>
   scaled_value (amountToReceive (calculateAmountToReceive
     (initial_state
        \<lparr>amountToSend := ''2'',
         fromCurrency := Some \<lparr>code = ''BTC'', name = ''BTC'', priceInUSD = Fin 50000\<rparr>,
         toCurrency := Some \<lparr>code = ''ETH'', name = ''ETH'', priceInUSD = Fin 2500\<rparr>,
         cryptoPricesInUSD := [(''BTC'', Fin 50000), (''ETH'', Fin 2500)]\<rparr>))) = 10000000"
proof -
  let ?S = "initial_state
        \<lparr>amountToSend := ''2'',
         fromCurrency := Some \<lparr>code = ''BTC'', name = ''BTC'', priceInUSD = Fin 50000\<rparr>,
         toCurrency := Some \<lparr>code = ''ETH'', name = ''ETH'', priceInUSD = Fin 2500\<rparr>,
         cryptoPricesInUSD := [(''BTC'', Fin 50000), (''ETH'', Fin 2500)]\<rparr>"
  let ?btc = "\<lparr>code = ''BTC'', name = ''BTC'', priceInUSD = Fin 50000\<rparr>"
  let ?eth = "\<lparr>code = ''ETH'', name = ''ETH'', priceInUSD = Fin 2500\<rparr>"
  have p: "parseFloat ''2'' = Fin 2"
    by code_simp
  have v: "js_mul (Fin 2) (js_div (Fin 2500) (Fin 50000)) =
     Fin (3602879701896397 / 36028797018963968)"
    by code_simp
  have small: "(3602879701896397 / 36028797018963968 :: rat) < 10 ^ 21"
    by simp
  have fl: "\<lfloor>(3602879701896397 / 36028797018963968 :: rat) * 10 ^ 8 + 1 / 2\<rfloor> = 10000000"
    by (rule floor_unique) simp_all
  have h1: "fromCurrency ?S = Some ?btc" by simp
  have h2: "toCurrency ?S = Some ?eth" by simp
  have h3: "code ?btc \<noteq> code ?eth" by simp
  have h4: "parseFloat (amountToSend ?S) = Fin 2" using p by simp
  have h5: "js_gt (Fin 2) (Fin 0)" by simp
  have h6: "js_le (Fin 2) MAX_AMOUNT" by (simp add: MAX_AMOUNT_def MAX_AMOUNT_int_def)
  have h7: "map_get (cryptoPricesInUSD ?S) (code ?btc) = Some (Fin 50000)" by simp
  have h8: "map_get (cryptoPricesInUSD ?S) (code ?eth) = Some (Fin 2500)" by simp
  have h9: "js_gt (Fin 50000) (Fin 0)" by simp
  have h10: "js_gt (Fin 2500) (Fin 0)" by simp
  note T = receive_amount_is_fixed_product [OF h1 h2 h3 h4 h5 h6 h7 h8 h9 h10]
  from T have r: "exchangeRate (calculateAmountToReceive ?S) = js_div (Fin 2500) (Fin 50000)"
    by (rule conjunct1)
  from T have a: "amountToReceive (calculateAmountToReceive ?S) =
      toFixed 8 (js_mul (Fin 2) (js_div (Fin 2500) (Fin 50000)))"
    by blast
  from T v small have f: "fixed_format 8 (amountToReceive (calculateAmountToReceive ?S)) \<and>
      scaled_value (amountToReceive (calculateAmountToReceive ?S)) =
        \<lfloor>(3602879701896397 / 36028797018963968 :: rat) * 10 ^ 8 + 1 / 2\<rfloor>"
    by blast
  from r a f show ?thesis
    unfolding fl by blast
qed

text \<open>
  C2, as stated: whenever both currencies are selected, distinct and priced, the exchange
  rate is \<open>priceOf(to) / priceOf(from)\<close>, whatever the send amount.  The calculator also
  requires the amount to be in range: after the prices load, the clear button sets the
  amount to \<open>0\<close>, and the rate of the resulting state is 0.
\<close>

theorem rate_zero_counterexample:
  "fromCurrency (dispatch (run_effects (fetchCryptoData (Some
     [\<lparr>currency = ''BTC'', date = ''2023-08-29T07:10:40.000Z'', price = Fin 50000\<rparr>,
      \<lparr>currency = ''ETH'', date = ''2023-08-29T07:10:52.000Z'', price = Fin 2500\<rparr>])
     initial_state)) ClearAmount)
     = Some \<lparr>code = ''BTC'', name = ''BTC'', priceInUSD = Fin 50000\<rparr> \<and>
   toCurrency (dispatch (run_effects (fetchCryptoData (Some
     [\<lparr>currency = ''BTC'', date = ''2023-08-29T07:10:40.000Z'', price = Fin 50000\<rparr>,
      \<lparr>currency = ''ETH'', date = ''2023-08-29T07:10:52.000Z'', price = Fin 2500\<rparr>])
     initial_state)) ClearAmount)
     = Some \<lparr>code = ''ETH'', name = ''ETH'', priceInUSD = Fin 2500\<rparr> \<and>
   map_get (cryptoPricesInUSD (dispatch (run_effects (fetchCryptoData (Some
     [\<lparr>currency = ''BTC'', date = ''2023-08-29T07:10:40.000Z'', price = Fin 50000\<rparr>,
      \<lparr>currency = ''ETH'', date = ''2023-08-29T07:10:52.000Z'', price = Fin 2500\<rparr>])
     initial_state)) ClearAmount)) ''BTC'' = Some (Fin 50000) \<and>
   map_get (cryptoPricesInUSD (dispatch (run_effects (fetchCryptoData (Some
     [\<lparr>currency = ''BTC'', date = ''2023-08-29T07:10:40.000Z'', price = Fin 50000\<rparr>,
      \<lparr>currency = ''ETH'', date = ''2023-08-29T07:10:52.000Z'', price = Fin 2500\<rparr>])
     initial_state)) ClearAmount)) ''ETH'' = Some (Fin 2500) \<and>
   exchangeRate (dispatch (run_effects (fetchCryptoData (Some
     [\<lparr>currency = ''BTC'', date = ''2023-08-29T07:10:40.000Z'', price = Fin 50000\<rparr>,
      \<lparr>currency = ''ETH'', date = ''2023-08-29T07:10:52.000Z'', price = Fin 2500\<rparr>])
     initial_state)) ClearAmount) = Fin 0 \<and>
   js_div (Fin 2500) (Fin 50000) \<noteq> Fin 0"
  by code_simp

text \<open>
  C2, amended: whenever both currencies are selected, distinct, have known positive
  prices and the send amount parses into \<open>(0, 10^12]\<close>, the calculator leaves the exchange
  rate \<open>priceOf(to) / priceOf(from)\<close>; in every other state over a price map built by the
  loader it leaves the rate 0 and the receive amount \<open>0.00\<close>.
\<close>

theorem rate_invariant_with_amount:
  "(fromCurrency s = Some fc \<and> toCurrency s = Some tc \<and> code fc \<noteq> code tc \<and>
    map_get (cryptoPricesInUSD s) (code fc) = Some pf \<and>
    map_get (cryptoPricesInUSD s) (code tc) = Some pt \<and>
    js_gt pf (Fin 0) \<and> js_gt pt (Fin 0) \<and> amount_in_range (amountToSend s) \<longrightarrow>
    exchangeRate (calculateAmountToReceive s) = js_div pt pf) \<and>
   (cryptoPricesInUSD s = pricesMap rawData \<and> \<not> swappable s \<longrightarrow>
    exchangeRate (calculateAmountToReceive s) = Fin 0 \<and>
    amountToReceive (calculateAmountToReceive s) = ''0.00'')"
proof (intro conjI impI)
  assume h: "fromCurrency s = Some fc \<and> toCurrency s = Some tc \<and> code fc \<noteq> code tc \<and>
    map_get (cryptoPricesInUSD s) (code fc) = Some pf \<and>
    map_get (cryptoPricesInUSD s) (code tc) = Some pt \<and>
    js_gt pf (Fin 0) \<and> js_gt pt (Fin 0) \<and> amount_in_range (amountToSend s)"
  then have "truthy pf" "truthy pt"
    by (simp_all add: positive_truthy)
  with h show "exchangeRate (calculateAmountToReceive s) = js_div pt pf"
    using calculate_success [of s fc tc pf pt] by simp
next
  assume "cryptoPricesInUSD s = pricesMap rawData \<and> \<not> swappable s"
  then have c: "calculateAmountToReceive s = no_result s"
    using calculate_not_swappable by blast
  show "exchangeRate (calculateAmountToReceive s) = Fin 0"
    by (simp add: c no_result_fields)
  show "amountToReceive (calculateAmountToReceive s) = ''0.00''"
    by (simp add: c no_result_fields)
qed

theorem rate_invariant_with_amount_witness:
  "exchangeRate (calculateAmountToReceive (fetchCryptoData (Some
     [\<lparr>currency = ''BTC'', date = ''2023-08-29T07:10:40.000Z'', price = Fin 50000\<rparr>,
      \<lparr>currency = ''ETH'', date = ''2023-08-29T07:10:52.000Z'', price = Fin 2500\<rparr>])
     initial_state)) = js_div (Fin 2500) (Fin 50000) \<and>
   exchangeRate (calculateAmountToReceive (handleClearAmount (fetchCryptoData (Some
     [\<lparr>currency = ''BTC'', date = ''2023-08-29T07:10:40.000Z'', price = Fin 50000\<rparr>,
      \<lparr>currency = ''ETH'', date = ''2023-08-29T07:10:52.000Z'', price = Fin 2500\<rparr>])
     initial_state))) = Fin 0 \<and>
   amountToReceive (calculateAmountToReceive (handleClearAmount (fetchCryptoData (Some
     [\<lparr>currency = ''BTC'', date = ''2023-08-29T07:10:40.000Z'', price = Fin 50000\<rparr>,
      \<lparr>currency = ''ETH'', date = ''2023-08-29T07:10:52.000Z'', price = Fin 2500\<rparr>])
     initial_state))) = ''0.00''"
proof -
  let ?feed = "[\<lparr>currency = ''BTC'', date = ''2023-08-29T07:10:40.000Z'', price = Fin 50000\<rparr>,
      \<lparr>currency = ''ETH'', date = ''2023-08-29T07:10:52.000Z'', price = Fin 2500\<rparr>]"
  let ?S = "fetchCryptoData (Some ?feed) initial_state"
  let ?btc = "\<lparr>code = ''BTC'', name = ''BTC'', priceInUSD = Fin 50000\<rparr>"
  let ?eth = "\<lparr>code = ''ETH'', name = ''ETH'', priceInUSD = Fin 2500\<rparr>"
  have h: "fromCurrency ?S = Some ?btc \<and> toCurrency ?S = Some ?eth \<and> code ?btc \<noteq> code ?eth \<and>
    map_get (cryptoPricesInUSD ?S) (code ?btc) = Some (Fin 50000) \<and>
    map_get (cryptoPricesInUSD ?S) (code ?eth) = Some (Fin 2500) \<and>
    js_gt (Fin 50000) (Fin 0) \<and> js_gt (Fin 2500) (Fin 0) \<and> amount_in_range (amountToSend ?S)"
    by code_simp
  have g: "cryptoPricesInUSD (handleClearAmount ?S) = pricesMap ?feed \<and>
    \<not> swappable (handleClearAmount ?S)"
    by code_simp
  from h have 1: "exchangeRate (calculateAmountToReceive ?S) = js_div (Fin 2500) (Fin 50000)"
    using rate_invariant_with_amount [of ?S ?btc ?eth "Fin 50000" "Fin 2500" ?feed] by blast
  from g have 2: "exchangeRate (calculateAmountToReceive (handleClearAmount ?S)) = Fin 0 \<and>
    amountToReceive (calculateAmountToReceive (handleClearAmount ?S)) = ''0.00''"
    using rate_invariant_with_amount [of "handleClearAmount ?S" ?btc ?eth "Fin 50000" "Fin 2500" ?feed]
    by blast
  from 1 2 show ?thesis by blast
qed

text \<open>
  C3.  Prices BTC 50000 and ETH 2500, amount \<open>2\<close>, from BTC to ETH.  The specification
  expects the rate 20 and the receive amount \<open>40.00000000\<close>, the worth of 2 BTC in ETH at
  these USD prices.  The calculator divides the price of the destination by the price of
  the source: the component, run from its initial state through the load and the amount
  input, stores the double nearest to 0.05 as the rate and \<open>0.10000000\<close> as the receive
  amount.
\<close>

theorem scenario_btc_to_eth:
  "fromCurrency (dispatch (run_effects (fetchCryptoData (Some
     [\<lparr>currency = ''BTC'', date = ''2023-08-29T07:10:40.000Z'', price = Fin 50000\<rparr>,
      \<lparr>currency = ''ETH'', date = ''2023-08-29T07:10:52.000Z'', price = Fin 2500\<rparr>])
     initial_state)) (AmountChange ''2''))
     = Some \<lparr>code = ''BTC'', name = ''BTC'', priceInUSD = Fin 50000\<rparr> \<and>
   toCurrency (dispatch (run_effects (fetchCryptoData (Some
     [\<lparr>currency = ''BTC'', date = ''2023-08-29T07:10:40.000Z'', price = Fin 50000\<rparr>,
      \<lparr>currency = ''ETH'', date = ''2023-08-29T07:10:52.000Z'', price = Fin 2500\<rparr>])
     initial_state)) (AmountChange ''2''))
     = Some \<lparr>code = ''ETH'', name = ''ETH'', priceInUSD = Fin 2500\<rparr> \<and>
   exchangeRate (dispatch (run_effects (fetchCryptoData (Some
     [\<lparr>currency = ''BTC'', date = ''2023-08-29T07:10:40.000Z'', price = Fin 50000\<rparr>,
      \<lparr>currency = ''ETH'', date = ''2023-08-29T07:10:52.000Z'', price = Fin 2500\<rparr>])
     initial_state)) (AmountChange ''2''))
     = Fin (3602879701896397 / 72057594037927936) \<and>
   amountToReceive (dispatch (run_effects (fetchCryptoData (Some
     [\<lparr>currency = ''BTC'', date = ''2023-08-29T07:10:40.000Z'', price = Fin 50000\<rparr>,
      \<lparr>currency = ''ETH'', date = ''2023-08-29T07:10:52.000Z'', price = Fin 2500\<rparr>])
     initial_state)) (AmountChange ''2'')) = ''0.10000000''"
  by code_simp

text \<open>
  C4.  For every feed the loader can have read, and every state over the map built from
  it: when the amount does not parse into \<open>(0, 10^12]\<close>, or a currency is unselected, or
  the two codes are equal, or a selected currency has no positive price in the map, the
  calculator leaves the receive amount \<open>0.00\<close> and the rate 0.
\<close>

theorem failed_precondition_gives_zero:
  assumes "cryptoPricesInUSD s = pricesMap rawData"
    and "\<not> amount_in_range (amountToSend s) \<or>
         fromCurrency s = None \<or> toCurrency s = None \<or> same_currency s \<or>
         (\<exists>fc. fromCurrency s = Some fc \<and>
               \<not> known_positive_price (cryptoPricesInUSD s) (code fc)) \<or>
         (\<exists>tc. toCurrency s = Some tc \<and>
               \<not> known_positive_price (cryptoPricesInUSD s) (code tc))"
  shows "amountToReceive (calculateAmountToReceive s) = ''0.00'' \<and>
         exchangeRate (calculateAmountToReceive s) = Fin 0"
proof -
  from assms(2) have "\<not> swappable s"
    by (auto simp: swappable_def same_currency_def split: option.splits)
  with assms(1) have "calculateAmountToReceive s = no_result s"
    by (rule calculate_not_swappable)
  then show ?thesis
    by (simp add: no_result_fields)
qed

theorem failed_precondition_gives_zero_witness:
  "\<not> amount_in_range ''0'' \<and>
   amountToReceive (calculateAmountToReceive (handleClearAmount (fetchCryptoData (Some
     [\<lparr>currency = ''BTC'', date = ''2023-08-29T07:10:40.000Z'', price = Fin 50000\<rparr>,
      \<lparr>currency = ''ETH'', date = ''2023-08-29T07:10:52.000Z'', price = Fin 2500\<rparr>])
     initial_state))) = ''0.00'' \<and>
   exchangeRate (calculateAmountToReceive (handleClearAmount (fetchCryptoData (Some
     [\<lparr>currency = ''BTC'', date = ''2023-08-29T07:10:40.000Z'', price = Fin 50000\<rparr>,
      \<lparr>currency = ''ETH'', date = ''2023-08-29T07:10:52.000Z'', price = Fin 2500\<rparr>])
     initial_state))) = Fin 0 \<and>
   same_currency (handleToCurrencyChange
     (Some \<lparr>code = ''BTC'', name = ''BTC'', priceInUSD = Fin 50000\<rparr>) (fetchCryptoData (Some
     [\<lparr>currency = ''BTC'', date = ''2023-08-29T07:10:40.000Z'', price = Fin 50000\<rparr>,
      \<lparr>currency = ''ETH'', date = ''2023-08-29T07:10:52.000Z'', price = Fin 2500\<rparr>])
     initial_state)) \<and>
   amountToReceive (calculateAmountToReceive (handleToCurrencyChange
     (Some \<lparr>code = ''BTC'', name = ''BTC'', priceInUSD = Fin 50000\<rparr>) (fetchCryptoData (Some
     [\<lparr>currency = ''BTC'', date = ''2023-08-29T07:10:40.000Z'', price = Fin 50000\<rparr>,
      \<lparr>currency = ''ETH'', date = ''2023-08-29T07:10:52.000Z'', price = Fin 2500\<rparr>])
     initial_state))) = ''0.00''"
proof -
  let ?feed = "[\<lparr>currency = ''BTC'', date = ''2023-08-29T07:10:40.000Z'', price = Fin 50000\<rparr>,
      \<lparr>currency = ''ETH'', date = ''2023-08-29T07:10:52.000Z'', price = Fin 2500\<rparr>]"
  let ?S = "handleClearAmount (fetchCryptoData (Some ?feed) initial_state)"
  let ?T = "handleToCurrencyChange
     (Some \<lparr>code = ''BTC'', name = ''BTC'', priceInUSD = Fin 50000\<rparr>)
     (fetchCryptoData (Some ?feed) initial_state)"
  have z: "\<not> amount_in_range ''0''"
    by code_simp
  have m: "cryptoPricesInUSD ?S = pricesMap ?feed"
    by code_simp
  have a: "amountToSend ?S = ''0''"
    by (simp add: handleClearAmount_def)
  have m': "cryptoPricesInUSD ?T = pricesMap ?feed"
    by code_simp
  have same: "same_currency ?T"
    by code_simp
  from z a have 1: "amountToReceive (calculateAmountToReceive ?S) = ''0.00'' \<and>
       exchangeRate (calculateAmountToReceive ?S) = Fin 0"
    using failed_precondition_gives_zero [of ?S ?feed, OF m] by simp
  from same have 2: "amountToReceive (calculateAmountToReceive ?T) = ''0.00'' \<and>
       exchangeRate (calculateAmountToReceive ?T) = Fin 0"
    using failed_precondition_gives_zero [of ?T ?feed, OF m'] by blast
  from z 1 2 same show ?thesis by blast
qed

section \<open>Form validator\<close>

text \<open>
  C5.  For every amount string the validator sets the amount error to exactly
  ``Amount is required.'' when the string is empty, to ``Please enter a positive amount.''
  when it is not a number or parses to a value at most 0, to the ceiling message when it
  parses to a value above \<open>10^12\<close>, and clears it otherwise.  The four cases exclude
  one another (an empty string parses to NaN, a value above the ceiling is neither NaN nor
  at most 0), so exactly one applies, and in the first three the form is invalid.
\<close>

theorem validator_amount_message:
  "(amountToSend s = [] \<longrightarrow> amountError (fst (validateForm s)) = ''Amount is required.'') \<and>
   (amountToSend s \<noteq> [] \<and>
      (isNaN (parseFloat (amountToSend s)) \<or> js_le (parseFloat (amountToSend s)) (Fin 0)) \<longrightarrow>
      amountError (fst (validateForm s)) = ''Please enter a positive amount.'') \<and>
   (js_gt (parseFloat (amountToSend s)) MAX_AMOUNT \<longrightarrow>
      amountError (fst (validateForm s)) = ''Amount cannot exceed 1,000,000,000,000.'') \<and>
   (js_gt (parseFloat (amountToSend s)) (Fin 0) \<and> js_le (parseFloat (amountToSend s)) MAX_AMOUNT \<longrightarrow>
      amountError (fst (validateForm s)) = []) \<and>
   (amountToSend s = [] \<longrightarrow> isNaN (parseFloat (amountToSend s))) \<and>
   (js_gt (parseFloat (amountToSend s)) MAX_AMOUNT \<longrightarrow>
      \<not> isNaN (parseFloat (amountToSend s)) \<and> \<not> js_le (parseFloat (amountToSend s)) (Fin 0)) \<and>
   (js_gt (parseFloat (amountToSend s)) (Fin 0) \<and> js_le (parseFloat (amountToSend s)) MAX_AMOUNT) =
     (\<not> isNaN (parseFloat (amountToSend s)) \<and> \<not> js_le (parseFloat (amountToSend s)) (Fin 0) \<and>
      \<not> js_gt (parseFloat (amountToSend s)) MAX_AMOUNT) \<and>
   (amountError (fst (validateForm s)) \<noteq> [] \<longrightarrow> \<not> snd (validateForm s))"
proof -
  define a where "a = parseFloat (amountToSend s)"
  have empty: "amountToSend s = [] \<Longrightarrow> isNaN a"
    by (simp add: a_def parseFloat_Nil)
  have over: "js_gt a MAX_AMOUNT \<Longrightarrow> \<not> isNaN a \<and> \<not> js_le a (Fin 0)"
    by (cases a) (auto simp: MAX_AMOUNT_def MAX_AMOUNT_int_def)
  have range: "(js_gt a (Fin 0) \<and> js_le a MAX_AMOUNT) =
     (\<not> isNaN a \<and> \<not> js_le a (Fin 0) \<and> \<not> js_gt a MAX_AMOUNT)"
    by (rule number_range_cases)
  have err: "amountError (fst (validateForm s)) =
     (if amountToSend s = [] then ''Amount is required.''
      else if isNaN a \<or> js_le a (Fin 0) then ''Please enter a positive amount.''
      else if js_gt a MAX_AMOUNT then ''Amount cannot exceed 1,000,000,000,000.''
      else [])"
    by (simp add: validateForm_amountError validate_amount_error a_def)
  have flag: "snd (validateForm s) \<Longrightarrow> js_gt a (Fin 0) \<and> js_le a MAX_AMOUNT"
    by (simp add: validateForm_snd amount_in_range_def a_def)
  show ?thesis
    unfolding a_def [symmetric]
    using empty over range err flag by auto
qed

text \<open>The examples of the specification: \<open>abc\<close>, the empty amount and \<open>1e13\<close>.\<close>

theorem validator_amount_message_witness:
  "isNaN (parseFloat ''abc'') \<and>
   amountError (fst (validateForm (initial_state\<lparr>amountToSend := ''abc''\<rparr>))) =
     ''Please enter a positive amount.'' \<and>
   amountError (fst (validateForm (initial_state\<lparr>amountToSend := []\<rparr>))) =
     ''Amount is required.'' \<and>
   js_gt (parseFloat ''1e13'') MAX_AMOUNT \<and>
   amountError (fst (validateForm (initial_state\<lparr>amountToSend := ''1e13''\<rparr>))) =
     ''Amount cannot exceed 1,000,000,000,000.''"
proof -
  have abc: "isNaN (parseFloat ''abc'')"
    by code_simp
  have big: "js_gt (parseFloat ''1e13'') MAX_AMOUNT"
    by code_simp
  show ?thesis
    using abc big
      validator_amount_message [of "initial_state\<lparr>amountToSend := ''abc''\<rparr>"]
      validator_amount_message [of "initial_state\<lparr>amountToSend := []\<rparr>"]
      validator_amount_message [of "initial_state\<lparr>amountToSend := ''1e13''\<rparr>"]
    by simp
qed

text \<open>
  C6.  When both currencies are selected and their codes are equal, the presence checks
  first clear both currency errors, and the cross-field check then overwrites both with the
  same message; the form is reported invalid.
\<close>

theorem same_currency_overrides:
  assumes "fromCurrency s = Some fc" and "toCurrency s = Some tc" and "code fc = code tc"
  shows "fromCurrencyError (fst (validate_to (validate_from (validate_amount (s, True))))) = [] \<and>
         toCurrencyError (fst (validate_to (validate_from (validate_amount (s, True))))) = [] \<and>
         fromCurrencyError (fst (validateForm s)) = ''Currencies cannot be the same.'' \<and>
         toCurrencyError (fst (validateForm s)) = ''Currencies cannot be the same.'' \<and>
         \<not> snd (validateForm s)"
proof -
  from assms have same: "same_currency s"
    by (simp add: same_currency_def)
  from assms have "fromCurrencyError (fst (validate_to (validate_from (validate_amount (s, True))))) = []"
    by (simp add: validate_to_result validate_from_result validate_amount_keeps)
  moreover from assms
  have "toCurrencyError (fst (validate_to (validate_from (validate_amount (s, True))))) = []"
    by (simp add: validate_to_result validate_from_keeps validate_amount_keeps)
  ultimately show ?thesis
    using same
    by (simp add: validateForm_fromCurrencyError validateForm_toCurrencyError validateForm_snd)
qed

theorem same_currency_overrides_witness:
  "fromCurrencyError (fst (validateForm (initial_state
     \<lparr>fromCurrency := Some \<lparr>code = ''ETH'', name = ''ETH'', priceInUSD = Fin 2500\<rparr>,
      toCurrency := Some \<lparr>code = ''ETH'', name = ''ETH'', priceInUSD = Fin 2500\<rparr>\<rparr>))) =
     ''Currencies cannot be the same.'' \<and>
   toCurrencyError (fst (validateForm (initial_state
     \<lparr>fromCurrency := Some \<lparr>code = ''ETH'', name = ''ETH'', priceInUSD = Fin 2500\<rparr>,
      toCurrency := Some \<lparr>code = ''ETH'', name = ''ETH'', priceInUSD = Fin 2500\<rparr>\<rparr>))) =
     ''Currencies cannot be the same.'' \<and>
   \<not> snd (validateForm (initial_state
     \<lparr>fromCurrency := Some \<lparr>code = ''ETH'', name = ''ETH'', priceInUSD = Fin 2500\<rparr>,
      toCurrency := Some \<lparr>code = ''ETH'', name = ''ETH'', priceInUSD = Fin 2500\<rparr>\<rparr>))"
  using same_currency_overrides [of
      "initial_state
         \<lparr>fromCurrency := Some \<lparr>code = ''ETH'', name = ''ETH'', priceInUSD = Fin 2500\<rparr>,
          toCurrency := Some \<lparr>code = ''ETH'', name = ''ETH'', priceInUSD = Fin 2500\<rparr>\<rparr>"
      "\<lparr>code = ''ETH'', name = ''ETH'', priceInUSD = Fin 2500\<rparr>"
      "\<lparr>code = ''ETH'', name = ''ETH'', priceInUSD = Fin 2500\<rparr>"]
  by simp

text \<open>
  C7, as stated: the aggregate predicate \<open>isFormValid\<close> and the verdict of
  \<open>validateForm\<close> agree on every state.  They do not: \<open>isFormValid\<close> also reads the
  three stored error messages, which are those of the previous validation.  After the
  prices load, the user empties the amount (the effect stores ``Amount is required.'') and
  then types 5: in the state of that render the validator accepts the form while the
  aggregate predicate, still seeing the stored message, rejects it.
\<close>

theorem validity_predicates_differ_counterexample:
  "snd (validateForm
     (handleAmountChange ''5''
        (dispatch (run_effects (fetchCryptoData (Some
           [\<lparr>currency = ''BTC'', date = ''2023-08-29T07:10:40.000Z'', price = Fin 50000\<rparr>,
        \<lparr>currency = ''ETH'', date = ''2023-08-29T07:10:52.000Z'', price = Fin 2500\<rparr>])
           initial_state)) (AmountChange [])))) \<and>
   \<not> isFormValid
     (handleAmountChange ''5''
        (dispatch (run_effects (fetchCryptoData (Some
           [\<lparr>currency = ''BTC'', date = ''2023-08-29T07:10:40.000Z'', price = Fin 50000\<rparr>,
        \<lparr>currency = ''ETH'', date = ''2023-08-29T07:10:52.000Z'', price = Fin 2500\<rparr>])
           initial_state)) (AmountChange [])))"
  by code_simp

text \<open>
  C7, amended: the aggregate predicate implies the validator's verdict on the same state,
  and the two agree on every state whose error messages are the ones the validator has
  just stored.
\<close>

theorem validity_predicates_agree_after_validation:
  "(isFormValid s \<longrightarrow> snd (validateForm s)) \<and>
   isFormValid (fst (validateForm s)) = snd (validateForm s)"
proof -
  have 1: "isFormValid s \<longrightarrow> snd (validateForm s)"
    by (simp add: isFormValid_eq validateForm_snd)
  have same: "same_currency (fst (validateForm s)) = same_currency s"
    by (simp add: same_currency_def validateForm_fields)
  have err: "amountError (fst (validateForm s)) = [] \<longleftrightarrow>
     amountToSend s \<noteq> [] \<and> amount_in_range (amountToSend s)"
    using number_range_cases [of "parseFloat (amountToSend s)"]
    by (auto simp: validateForm_amountError validate_amount_error amount_in_range_def)
  have 2: "isFormValid (fst (validateForm s)) = snd (validateForm s)"
    using amount_in_range_nonempty [of "amountToSend s"]
    by (auto simp: isFormValid_eq validateForm_snd validateForm_fields same err
          validateForm_fromCurrencyError validateForm_toCurrencyError)
  from 1 2 show ?thesis by blast
qed

theorem validity_predicates_agree_witness:
  "isFormValid (fst (validateForm (run_effects (fetchCryptoData (Some
      [\<lparr>currency = ''BTC'', date = ''2023-08-29T07:10:40.000Z'', price = Fin 50000\<rparr>,
        \<lparr>currency = ''ETH'', date = ''2023-08-29T07:10:52.000Z'', price = Fin 2500\<rparr>])
      initial_state)))) \<and>
   snd (validateForm (run_effects (fetchCryptoData (Some
      [\<lparr>currency = ''BTC'', date = ''2023-08-29T07:10:40.000Z'', price = Fin 50000\<rparr>,
        \<lparr>currency = ''ETH'', date = ''2023-08-29T07:10:52.000Z'', price = Fin 2500\<rparr>])
      initial_state)))"
proof -
  have "snd (validateForm (run_effects (fetchCryptoData (Some
      [\<lparr>currency = ''BTC'', date = ''2023-08-29T07:10:40.000Z'', price = Fin 50000\<rparr>,
        \<lparr>currency = ''ETH'', date = ''2023-08-29T07:10:52.000Z'', price = Fin 2500\<rparr>])
      initial_state)))"
    by code_simp
  then show ?thesis
    using validity_predicates_agree_after_validation [of "run_effects (fetchCryptoData (Some
      [\<lparr>currency = ''BTC'', date = ''2023-08-29T07:10:40.000Z'', price = Fin 50000\<rparr>,
        \<lparr>currency = ''ETH'', date = ''2023-08-29T07:10:52.000Z'', price = Fin 2500\<rparr>])
      initial_state)"]
    by simp
qed

section \<open>Price loader\<close>

text \<open>
  C8.  The loader retains only the records with a positive price.  Its map holds exactly
  the codes that appear in some record with a positive price, each once; for a code that
  appears in several records the price seen last among the retained ones wins; and the
  derived entities are, in the order of the map, one per code, each with its name equal to
  its code and its \<open>priceInUSD\<close> equal to the mapped price.
\<close>

theorem loader_map_and_entities:
  "(\<forall>c. map_get (pricesMap rawData) c = last_seen_price (retained rawData) c) \<and>
   (\<forall>c. map_get (pricesMap rawData) c = last_positive_price rawData c) \<and>
   set (map_keys (pricesMap rawData)) =
     {currency d | d. d \<in> set rawData \<and> js_gt (price d) (Fin 0)} \<and>
   distinct (map_keys (pricesMap rawData)) \<and>
   map code (processed (pricesMap rawData)) = map_keys (pricesMap rawData) \<and>
   (\<forall>e \<in> set (processed (pricesMap rawData)).
      name e = code e \<and> map_get (pricesMap rawData) (code e) = Some (priceInUSD e))"
proof (intro conjI allI ballI)
  show "map_get (pricesMap rawData) c = last_seen_price (retained rawData) c" for c
    by (rule pricesMap_last_seen)
  show "map_get (pricesMap rawData) c = last_positive_price rawData c" for c
    by (rule pricesMap_get)
  show "set (map_keys (pricesMap rawData)) =
     {currency d | d. d \<in> set rawData \<and> js_gt (price d) (Fin 0)}"
    by (rule pricesMap_keys)
  show "distinct (map_keys (pricesMap rawData))"
    by (rule pricesMap_distinct)
  show "map code (processed (pricesMap rawData)) = map_keys (pricesMap rawData)"
    by (rule processed_code)
  show "name e = code e" if "e \<in> set (processed (pricesMap rawData))" for e
    using that by (simp add: processed_lookup)
  show "map_get (pricesMap rawData) (code e) = Some (priceInUSD e)"
    if "e \<in> set (processed (pricesMap rawData))" for e
    using that by (simp add: processed_lookup)
qed

theorem loader_map_and_entities_witness:
  "\<lparr>code = ''ETH'', name = ''ETH'', priceInUSD = Fin 2600\<rparr> \<in> set (processed (pricesMap
     [\<lparr>currency = ''ETH'', date = ''2023-08-29T07:10:40.000Z'', price = Fin 2500\<rparr>,
      \<lparr>currency = ''BTC'', date = ''2023-08-29T07:10:45.000Z'', price = Fin 50000\<rparr>,
      \<lparr>currency = ''ETH'', date = ''2023-08-29T07:10:52.000Z'', price = Fin 2600\<rparr>])) \<and>
   map_get (pricesMap
     [\<lparr>currency = ''ETH'', date = ''2023-08-29T07:10:40.000Z'', price = Fin 2500\<rparr>,
      \<lparr>currency = ''BTC'', date = ''2023-08-29T07:10:45.000Z'', price = Fin 50000\<rparr>,
      \<lparr>currency = ''ETH'', date = ''2023-08-29T07:10:52.000Z'', price = Fin 2600\<rparr>]) ''ETH''
     = Some (Fin 2600) \<and>
   map_keys (pricesMap
     [\<lparr>currency = ''ETH'', date = ''2023-08-29T07:10:40.000Z'', price = Fin 2500\<rparr>,
      \<lparr>currency = ''BTC'', date = ''2023-08-29T07:10:45.000Z'', price = Fin 50000\<rparr>,
      \<lparr>currency = ''ETH'', date = ''2023-08-29T07:10:52.000Z'', price = Fin 2600\<rparr>])
     = [''ETH'', ''BTC'']"
  using loader_map_and_entities [of
     "[\<lparr>currency = ''ETH'', date = ''2023-08-29T07:10:40.000Z'', price = Fin 2500\<rparr>,
      \<lparr>currency = ''BTC'', date = ''2023-08-29T07:10:45.000Z'', price = Fin 50000\<rparr>,
      \<lparr>currency = ''ETH'', date = ''2023-08-29T07:10:52.000Z'', price = Fin 2600\<rparr>]"]
  by (simp add: pricesMap_def processed_def)

section \<open>Event handlers\<close>

text \<open>
  C9.  The swap-direction toggle applied twice gives back the state it started from, so
  the same \<open>fromCurrency\<close> and \<open>toCurrency\<close>, whether or not either is selected; the
  effects that run after each toggle do not touch the selection.
\<close>

theorem swap_direction_involutive:
  "handleSwapCurrencies (handleSwapCurrencies s) = s \<and>
   fromCurrency (dispatch (dispatch s SwapCurrencies) SwapCurrencies) = fromCurrency s \<and>
   toCurrency (dispatch (dispatch s SwapCurrencies) SwapCurrencies) = toCurrency s"
  by (simp add: dispatch_def effects_after_fields handleSwapCurrencies_def Let_def)

text \<open>
  C10.  An amount-input event either leaves the state as it is or stores the new value,
  and it stores the value only when the pattern accepts it; the pattern accepts exactly
  the strings of digits with at most one point.  So the amount keeps that shape along
  every sequence of events of the form.
\<close>

theorem amount_input_keeps_pattern:
  "(handleAmountChange v s = s \<or>
      amountToSend (handleAmountChange v s) = v \<and> amount_regex_test v) \<and>
   amount_regex_test v = plain_decimal v \<and>
   (plain_decimal (amountToSend s) \<longrightarrow>
      plain_decimal (amountToSend (foldl dispatch s evs)))"
proof -
  have nil: "plain_decimal []"
    by (simp add: plain_decimal_def)
  show ?thesis
    using foldl_dispatch_plain [of s evs] nil
    by (auto simp: handleAmountChange_def regex_plain_decimal)
qed

theorem amount_input_keeps_pattern_witness:
  "plain_decimal (amountToSend initial_state) \<and>
   plain_decimal (amountToSend (foldl dispatch initial_state
     [AmountChange ''12.5'', AmountChange ''1e5'', ClearAmount, AmountChange ''-3'', Swap])) \<and>
   handleAmountChange ''1e5'' initial_state = initial_state"
proof -
  have start: "plain_decimal (amountToSend initial_state)"
    by (simp add: initial_state_def plain_decimal_def is_digit_def)
  have reject: "\<not> amount_regex_test ''1e5''"
    by (simp add: amount_regex_test_def is_digit_def)
  show ?thesis
    using start reject
      amount_input_keeps_pattern [of "''1e5''" initial_state
        "[AmountChange ''12.5'', AmountChange ''1e5'', ClearAmount, AmountChange ''-3'', Swap]"]
    by blast
qed

end
